theory Spec2Isabelle
  imports Main "HOL-Library.Word" "HOL-Library.AList" "HOL-Library.Product_Lexorder"
begin

section \<open>Regions and arrays\<close>

text \<open>
  Positions are voxel indices of a three-dimensional grid; the voxel size is one world unit
  on every axis, so that a region of interest in world units and its voxel box coincide.
  A region (\<open>daisy.Roi\<close>) is an offset and a shape.
\<close>

type_synonym coord = "int \<times> int \<times> int"

record roi =
  roi_offset :: coord
  roi_shape :: coord

definition Roi :: "coord \<Rightarrow> coord \<Rightarrow> roi" where
  "Roi off shp = \<lparr>roi_offset = off, roi_shape = shp\<rparr>"

fun grow :: "roi \<Rightarrow> coord \<Rightarrow> coord \<Rightarrow> roi" where
  "grow r (ax, ay, az) (bx, by, bz) =
     (case (roi_offset r, roi_shape r) of
        ((ox, oy, oz), (sx, sy, sz)) \<Rightarrow>
          Roi (ox - ax, oy - ay, oz - az) (sx + ax + bx, sy + ay + by, sz + az + bz))"

fun contains :: "roi \<Rightarrow> coord \<Rightarrow> bool" where
  "contains r (x, y, z) =
     (case (roi_offset r, roi_shape r) of
        ((ox, oy, oz), (sx, sy, sz)) \<Rightarrow>
          ox \<le> x \<and> x < ox + sx \<and> oy \<le> y \<and> y < oy + sy \<and> oz \<le> z \<and> z < oz + sz)"

definition roi_size :: "roi \<Rightarrow> nat" where
  "roi_size r = (case roi_shape r of (sx, sy, sz) \<Rightarrow> nat sx * nat sy * nat sz)"

text \<open>The voxels of a region in C order (last axis fastest), the order of \<open>flatten\<close>.\<close>

definition roi_points :: "roi \<Rightarrow> coord list" where
  "roi_points r =
     (case (roi_offset r, roi_shape r) of
        ((ox, oy, oz), (sx, sy, sz)) \<Rightarrow>
          concat (map (\<lambda>x. concat (map (\<lambda>y. map (\<lambda>z. (x, y, z)) [oz..oz + sz - 1])
                                        [oy..oy + sy - 1]))
                      [ox..ox + sx - 1]))"

text \<open>
  A \<open>daisy.Array\<close>: the number of axes of the underlying \<open>numpy\<close> array, its region and
  its values. An array of fewer than three axes is held with the missing axes of extent one.
\<close>

record 'v array =
  ndim :: nat
  roi :: roi
  data :: "coord \<Rightarrow> 'v"

text \<open>\<open>array.to_ndarray(roi, fill_value=0)\<close>: positions outside the array read as 0.\<close>

definition to_ndarray :: "'a::len word array \<Rightarrow> coord \<Rightarrow> 'a word" where
  "to_ndarray a p = (if contains (roi a) p then data a p else 0)"

text \<open>\<open>array[roi] = values\<close>: the values of the region are replaced.\<close>

definition setitem :: "'a::len word array \<Rightarrow> roi \<Rightarrow> (coord \<Rightarrow> 'a word) \<Rightarrow> 'a word array" where
  "setitem a r v = a\<lparr>data := (\<lambda>p. if contains r p then v p else data a p)\<rparr>"

section \<open>The connectivity labelling primitive\<close>

text \<open>
  \<open>skimage.measure.label(labels, connectivity=1)\<close> on the voxels of a region: two voxels
  are joined when they are face neighbours and hold the same nonzero value; 0 is background
  and stays 0; the components are numbered 1, 2, ... in the order in which the scan meets
  their first voxel.
\<close>

definition neighbours6 :: "coord \<Rightarrow> coord list" where
  "neighbours6 p = (case p of (x, y, z) \<Rightarrow>
     [(x - 1, y, z), (x + 1, y, z), (x, y - 1, z), (x, y + 1, z), (x, y, z - 1), (x, y, z + 1)])"

definition blob_steps :: "(coord \<Rightarrow> 'a::len word) \<Rightarrow> roi \<Rightarrow> (coord \<times> coord) list" where
  "blob_steps labels r =
     concat (map (\<lambda>p. if labels p = 0 then []
                        else map (\<lambda>q. (p, q))
                               (filter (\<lambda>q. contains r q \<and> labels q = labels p) (neighbours6 p)))
                 (roi_points r))"

text \<open>
  Two voxels are joined when they are the same voxel or a chain of such steps leads from
  one to the other; a chain starts at a foreground voxel only.
\<close>

definition joined :: "(coord \<Rightarrow> 'a::len word) \<Rightarrow> roi \<Rightarrow> coord \<Rightarrow> coord \<Rightarrow> bool" where
  "joined labels r p q =
     (if p = q then True
      else if labels p = 0 then False
      else (p, q) \<in> trancl (set (blob_steps labels r)))"

definition first_voxel :: "(coord \<Rightarrow> 'a::len word) \<Rightarrow> roi \<Rightarrow> coord \<Rightarrow> coord" where
  "first_voxel labels r p = hd (filter (\<lambda>q. joined labels r q p) (roi_points r))"

definition skimage_label :: "(coord \<Rightarrow> 'a::len word) \<Rightarrow> roi \<Rightarrow> coord \<Rightarrow> nat" where
  "skimage_label labels r p =
     (if labels p = 0 then 0
      else Suc (length (filter (\<lambda>q. if labels q = 0 then False else first_voxel labels r q = q)
                          (takeWhile (\<lambda>q. q \<noteq> first_voxel labels r p) (roi_points r)))))"

section \<open>Blocks, the scratch directory and the blockwise executor\<close>

datatype error = IndexError | ValueError | AssertionError

text \<open>A \<open>daisy.Block\<close> as the executor hands it to the process function.\<close>

record block =
  block_id :: nat
  read_roi :: roi
  write_roi :: roi

text \<open>
  The temporary directory: the file \<open>block_<id>.npz\<close> of a block holds its nodes and its
  edges; saving under an existing name replaces the file.
\<close>

type_synonym 'a scratch = "(nat \<times> ('a word list \<times> ('a word \<times> 'a word) list)) list"

text \<open>
  \<open>daisy.run_blockwise\<close> calls the process function once for every block of its schedule,
  here in the order of the list. A block whose call raises is marked failed by the executor
  and leaves nothing behind; the run goes on with the next block.
\<close>

fun run_blockwise :: "(block \<Rightarrow> 's \<Rightarrow> error + 's) \<Rightarrow> block list \<Rightarrow> 's \<Rightarrow> 's" where
  "run_blockwise f [] s = s"
| "run_blockwise f (b # bs) s =
     (case f b s of Inl e \<Rightarrow> run_blockwise f bs s | Inr s' \<Rightarrow> run_blockwise f bs s')"

fun within :: "roi \<Rightarrow> roi \<Rightarrow> bool" where
  "within r t =
     (case (roi_offset r, roi_shape r, roi_offset t, roi_shape t) of
        ((ox, oy, oz), (sx, sy, sz), (px, py, pz), (tx, ty, tz)) \<Rightarrow>
          px \<le> ox \<and> ox + sx \<le> px + tx \<and> py \<le> oy \<and> oy + sy \<le> py + ty \<and>
          pz \<le> oz \<and> oz + sz \<le> pz + tz)"

section \<open>Phase 1: labelling a block and recording its boundary pairs\<close>

fun axis :: "nat \<Rightarrow> coord \<Rightarrow> int" where
  "axis 0 (x, y, z) = x"
| "axis (Suc 0) (x, y, z) = y"
| "axis (Suc (Suc n)) (x, y, z) = z"

text \<open>
  The index tuples \<open>slices_neg\<close> and \<open>slices_pos\<close> of axis \<open>d\<close>: the first and the last
  layer of a region along that axis, every other axis in full; the voxels are listed in
  the order of \<open>flatten\<close>.
\<close>

definition slices_neg :: "roi \<Rightarrow> nat \<Rightarrow> coord list" where
  "slices_neg r d = filter (\<lambda>p. axis d p = axis d (roi_offset r)) (roi_points r)"

definition slices_pos :: "roi \<Rightarrow> nat \<Rightarrow> coord list" where
  "slices_pos r d =
     filter (\<lambda>p. axis d p = axis d (roi_offset r) + axis d (roi_shape r) - 1) (roi_points r)"

text \<open>\<open>np.unique(rows, axis=0)\<close>: the distinct rows, sorted.\<close>

definition unique_rows :: "('a::len word \<times> 'a word) list \<Rightarrow> ('a word \<times> 'a word) list" where
  "unique_rows rows = sort (remdups rows)"

text \<open>\<open>np.unique(edges)\<close>: the distinct values of the flattened array, sorted.\<close>

definition unique_values :: "('a::len word \<times> 'a word) list \<Rightarrow> 'a word list" where
  "unique_values edges = sort (remdups (concat (map (\<lambda>(u, v). [u, v]) edges)))"

text \<open>
  The local labelling of the read region, cast to the type of the input, raised by
  \<open>block_id * num_voxels_in_block\<close> and set back to 0 on the background. The arithmetic is
  that of an integer array of the input's width: it wraps around.
\<close>

definition block_components ::
  "'a::len word array \<Rightarrow> nat \<Rightarrow> block \<Rightarrow> coord \<Rightarrow> 'a word" where
  "block_components array_in num_voxels_in_block blk p =
     (let labels = to_ndarray array_in in
      if labels p = 0 then 0
      else of_nat (skimage_label labels (read_roi blk) p)
             + of_nat (block_id blk * num_voxels_in_block))"

text \<open>
  \<open>components[1:-1, 1:-1, 1:-1]\<close> laid over the write region: the value that lands on the
  voxel \<open>p\<close> of the write region is the one at the same index of the cropped array.
\<close>

definition cropped :: "block \<Rightarrow> (coord \<Rightarrow> 'v) \<Rightarrow> coord \<Rightarrow> 'v" where
  "cropped blk components p =
     (case (p, roi_offset (write_roi blk), roi_offset (read_roi blk)) of
        ((x, y, z), (wx, wy, wz), (rx, ry, rz)) \<Rightarrow>
          components (x - wx + rx + 1, y - wy + ry + 1, z - wz + rz + 1))"

definition cropped_shape :: "block \<Rightarrow> coord" where
  "cropped_shape blk = (case roi_shape (read_roi blk) of (sx, sy, sz) \<Rightarrow> (sx - 2, sy - 2, sz - 2))"

definition boundary_pairs ::
  "(coord \<Rightarrow> 'a::len word) \<Rightarrow> (coord \<Rightarrow> 'a word) \<Rightarrow> roi \<Rightarrow> nat \<Rightarrow> ('a word \<times> 'a word) list" where
  "boundary_pairs components neighbors r d =
     (let pairs_neg = map (\<lambda>p. (components p, neighbors p)) (slices_neg r d);
          pairs_pos = map (\<lambda>p. (components p, neighbors p)) (slices_pos r d)
      in unique_rows (pairs_neg @ pairs_pos))"

definition find_components_in_block ::
  "'a::len word array \<Rightarrow> 'a word array \<Rightarrow> nat \<Rightarrow> block \<Rightarrow> 'a scratch
     \<Rightarrow> error + ('a word array \<times> 'a scratch)" where
  "find_components_in_block array_in array_out num_voxels_in_block blk tmpdir =
     (let components = block_components array_in num_voxels_in_block blk in
      if ndim array_in < 3 then Inl IndexError
      else if 3 < ndim array_in then Inl ValueError
      else if \<not> within (write_roi blk) (roi array_out) then Inl AssertionError
      else if cropped_shape blk \<noteq> roi_shape (write_roi blk) then Inl ValueError
      else
        let array_out' = setitem array_out (write_roi blk) (cropped blk components);
            neighbors = to_ndarray array_out';
            unique_pairs = concat (map (boundary_pairs components neighbors (read_roi blk)) [0, 1, 2]);
            edges = filter (\<lambda>(u, v). \<not> (u = 0 \<or> v = 0)) unique_pairs;
            nodes = unique_values edges
        in Inr (array_out', AList.update (block_id blk) (nodes, edges) tmpdir))"

section \<open>Phase 2: collecting and resolving the merges\<close>

text \<open>
  \<open>read_cross_block_merges\<close>: the files found by \<open>glob\<close> are loaded and their nodes and
  edges concatenated; \<open>np.concatenate\<close> of an empty list raises \<open>ValueError\<close>.
\<close>

definition read_cross_block_merges ::
  "'a scratch \<Rightarrow> error + ('a::len word list \<times> ('a word \<times> 'a word) list)" where
  "read_cross_block_merges tmpdir =
     (let block_files = map snd tmpdir;
          nodes = map fst block_files;
          edges = map snd block_files
      in if block_files = [] then Inl ValueError else Inr (concat nodes, concat edges))"

text \<open>
  Modelled from the spec: \<open>find_components\<close> of the package's \<open>impl\<close> extension module,
  which is compiled code outside the Python sources. The spec's merge resolver: the nodes and
  edges form an undirected graph; every node is given the minimum label of its connected
  component; a node in no edge is a component of its own. The result is parallel to
  \<open>nodes\<close>.
\<close>

definition merge_graph :: "('a \<times> 'a) list \<Rightarrow> ('a \<times> 'a) set" where
  "merge_graph edges = set (edges @ map (\<lambda>(u, v). (v, u)) edges)"

definition find_components ::
  "'a::len word list \<Rightarrow> ('a word \<times> 'a word) list \<Rightarrow> 'a word list" where
  "find_components nodes edges =
     map (\<lambda>n. fold min (filter (\<lambda>m. (n, m) \<in> trancl (merge_graph edges)) nodes) n) nodes"

section \<open>Phase 3: rewriting the provisional labels\<close>

text \<open>
  Modelled from the spec: \<open>replace_values\<close> of the package's module of that name, which is
  not among the sources at hand. The spec's substitution primitive: every occurrence of an
  old value is replaced by the new value at the same index of the parallel list; a value
  that is not listed passes through unchanged.
\<close>

definition replace_values :: "'a list \<Rightarrow> 'a list \<Rightarrow> 'a \<Rightarrow> 'a" where
  "replace_values old_values new_values v =
     (case map_of (zip old_values new_values) v of None \<Rightarrow> v | Some w \<Rightarrow> w)"

definition relabel_in_block ::
  "'a::len word array \<Rightarrow> 'a word list \<Rightarrow> 'a word list \<Rightarrow> block \<Rightarrow> error + 'a word array" where
  "relabel_in_block arr old_values new_values blk =
     (if \<not> within (write_roi blk) (roi arr) then Inl AssertionError
      else
        let a = data arr
        in Inr (setitem arr (write_roi blk) (\<lambda>p. replace_values old_values new_values (a p))))"

section \<open>The pipeline\<close>

text \<open>
  The second half of \<open>relabel_connected_components\<close>: whatever the scratch directory
  holds is collected and resolved, and the blocks of the second schedule are rewritten.
\<close>

definition merge_and_relabel ::
  "'a::len scratch \<Rightarrow> 'a word array \<Rightarrow> block list \<Rightarrow> error + 'a word array" where
  "merge_and_relabel tmpdir array_out schedule3 =
     (case read_cross_block_merges tmpdir of
        Inl e \<Rightarrow> Inl e
      | Inr (nodes, edges) \<Rightarrow>
          let components = find_components nodes edges
          in Inr (run_blockwise (\<lambda>b a. relabel_in_block a nodes components b)
                    schedule3 array_out))"

text \<open>
  \<open>relabel_connected_components\<close>. The two schedules are the blocks that the executor
  makes of the total region, the block size and the fit policy, in the order in which it
  runs them: the first with the halo of one voxel, the second without.
\<close>

definition relabel_connected_components ::
  "'a::len word array \<Rightarrow> 'a word array \<Rightarrow> coord \<Rightarrow> block list \<Rightarrow> block list
     \<Rightarrow> error + 'a word array" where
  "relabel_connected_components array_in array_out block_size schedule1 schedule3 =
     (let write_roi = Roi (0, 0, 0) block_size;
          read_roi = grow write_roi (1, 1, 1) (1, 1, 1);
          num_voxels_in_block = roi_size read_roi;
          (array_out1, tmpdir) =
             run_blockwise
               (\<lambda>b (a, t). find_components_in_block array_in a num_voxels_in_block b t)
               schedule1 (array_out, [])
      in merge_and_relabel tmpdir array_out1 schedule3)"

text \<open>The destination as the docstring asks for it: three axes, all zeros.\<close>

definition zeros :: "roi \<Rightarrow> 'a::len word array" where
  "zeros r = \<lparr>ndim = 3, roi = r, data = (\<lambda>p. 0)\<rparr>"

section \<open>Notions for stating and proving the properties\<close>


definition on_face :: "roi \<Rightarrow> coord \<Rightarrow> bool" where
  "on_face r p \<longleftrightarrow> contains r p \<and>
     (\<exists>d\<in>{0, 1, 2}. axis d p = axis d (roi_offset r) \<or>
                     axis d p = axis d (roi_offset r) + axis d (roi_shape r) - 1)"

definition recorded_edges ::
  "(coord \<Rightarrow> 'a::len word) \<Rightarrow> (coord \<Rightarrow> 'a word) \<Rightarrow> roi \<Rightarrow> ('a word \<times> 'a word) list" where
  "recorded_edges components neighbors r =
     filter (\<lambda>(u, v). \<not> (u = 0 \<or> v = 0))
       (concat (map (boundary_pairs components neighbors r) [0, 1, 2]))"

definition halo_block :: "roi \<Rightarrow> block \<Rightarrow> bool" where
  "halo_block vol b \<longleftrightarrow>
     read_roi b = grow (write_roi b) (1, 1, 1) (1, 1, 1) \<and> within (write_roi b) vol"

definition phase1 ::
  "'a::len word array \<Rightarrow> nat \<Rightarrow> block list \<Rightarrow> 'a word array \<times> 'a scratch
     \<Rightarrow> 'a word array \<times> 'a scratch" where
  "phase1 array_in cap bs st =
     run_blockwise (\<lambda>b (a, t). find_components_in_block array_in a cap b t) bs st"

definition written :: "'a::len word array \<Rightarrow> nat \<Rightarrow> block \<Rightarrow> 'a word array \<Rightarrow> 'a word array" where
  "written array_in cap b a = setitem a (write_roi b) (block_components array_in cap b)"

definition entry ::
  "'a::len word array \<Rightarrow> nat \<Rightarrow> block \<Rightarrow> 'a word array
     \<Rightarrow> 'a word list \<times> ('a word \<times> 'a word) list" where
  "entry array_in cap b a =
     (let es = recorded_edges (block_components array_in cap b)
                 (to_ndarray (written array_in cap b a)) (read_roi b)
      in (unique_values es, es))"

definition shape_le :: "coord \<Rightarrow> coord \<Rightarrow> bool" where
  "shape_le s t \<longleftrightarrow> (case (s, t) of ((sx, sy, sz), (tx, ty, tz)) \<Rightarrow> sx \<le> tx \<and> sy \<le> ty \<and> sz \<le> tz)"

definition covered_once :: "roi \<Rightarrow> block list \<Rightarrow> bool" where
  "covered_once vol bs \<longleftrightarrow>
     (\<forall>b\<in>set bs. within (write_roi b) vol) \<and>
     (\<forall>p\<in>set (roi_points vol). length (filter (\<lambda>b. contains (write_roi b) p) bs) = 1)"

definition halo_schedule :: "roi \<Rightarrow> coord \<Rightarrow> block list \<Rightarrow> bool" where
  "halo_schedule vol block_size bs \<longleftrightarrow>
     distinct (map block_id bs) \<and>
     (\<forall>b\<in>set bs. read_roi b = grow (write_roi b) (1, 1, 1) (1, 1, 1) \<and>
                  shape_le (1, 1, 1) (roi_shape (write_roi b)) \<and>
                  shape_le (roi_shape (write_roi b)) block_size) \<and>
     covered_once vol bs"

definition num_voxels :: "coord \<Rightarrow> nat" where
  "num_voxels block_size = roi_size (grow (Roi (0, 0, 0) block_size) (1, 1, 1) (1, 1, 1))"

definition labels_fit :: "nat \<Rightarrow> coord \<Rightarrow> block list \<Rightarrow> bool" where
  "labels_fit w block_size bs \<longleftrightarrow>
     (\<forall>b\<in>set bs. block_id b * num_voxels block_size + num_voxels block_size < 2 ^ w)"




definition scratch1 :: "'a::len word array \<Rightarrow> coord \<Rightarrow> block list \<Rightarrow> 'a scratch" where
  "scratch1 array_in block_size bs =
     snd (phase1 array_in (num_voxels block_size) bs (zeros (roi array_in), []))"

definition provisional :: "'a::len word array \<Rightarrow> coord \<Rightarrow> block list \<Rightarrow> 'a word array" where
  "provisional array_in block_size bs =
     fst (phase1 array_in (num_voxels block_size) bs (zeros (roi array_in), []))"

definition blob_connected :: "'a::len word array \<Rightarrow> coord \<Rightarrow> coord \<Rightarrow> bool" where
  "blob_connected array_in p q \<longleftrightarrow> joined (to_ndarray array_in) (roi array_in) p q"




text \<open>
  The label that a run leaves on a voxel, when the run returns.
\<close>

definition label_at :: "error + 'v array \<Rightarrow> coord \<Rightarrow> 'v option" where
  "label_at res p = (case res of Inl e \<Rightarrow> None | Inr out \<Rightarrow> Some (data out p))"


section \<open>Concrete volumes and schedules\<close>

text \<open>
  A block of a schedule, from its identifier and its write region: the read region is the
  write region grown by the halo on every side.
\<close>

definition mk_block :: "nat \<Rightarrow> coord \<Rightarrow> coord \<Rightarrow> int \<Rightarrow> block" where
  "mk_block i off shp halo =
     \<lparr>block_id = i, read_roi = grow (Roi off shp) (halo, halo, halo) (halo, halo, halo),
      write_roi = Roi off shp\<rparr>"

text \<open>
  Eight voxels in a row in blocks of four, with 8-bit labels: one run of 1-valued voxels at
  the indices 3 and 4, across the boundary of the two blocks.
\<close>

definition line8 :: "8 word array" where
  "line8 = \<lparr>ndim = 3, roi = Roi (0, 0, 0) (8, 1, 1),
             data = (\<lambda>p. if p = (3, 0, 0) \<or> p = (4, 0, 0) then 1 else 0)\<rparr>"

definition line8_halo :: "block list" where
  "line8_halo = [mk_block 0 (0, 0, 0) (4, 1, 1) 1, mk_block 1 (4, 0, 0) (4, 1, 1) 1]"

definition line8_flat :: "block list" where
  "line8_flat = [mk_block 0 (0, 0, 0) (4, 1, 1) 0, mk_block 1 (4, 0, 0) (4, 1, 1) 0]"





text \<open>
  The strip with three separate 7-valued voxels: one in the first block, and two in the
  second block, where they are the local components 1 and 2.
\<close>

definition strip30_three :: "8 word array" where
  "strip30_three = \<lparr>ndim = 3, roi = Roi (0, 0, 0) (1, 3, 30),
               data = (\<lambda>p. if p = (0, 0, 0) \<or> p = (0, 0, 20) \<or> p = (0, 0, 25) then 7 else 0)\<rparr>"

text \<open>
  Two voxels in blocks of one voxel; the second voxel holds 5. The first block sees it in
  its halo and labels it 0 * 27 + 1 there.
\<close>

definition pair2 :: "8 word array" where
  "pair2 = \<lparr>ndim = 3, roi = Roi (0, 0, 0) (2, 1, 1),
             data = (\<lambda>p. if p = (1, 0, 0) then 5 else 0)\<rparr>"

definition pair2_halo :: "block list" where
  "pair2_halo = [mk_block 0 (0, 0, 0) (1, 1, 1) 1, mk_block 1 (1, 0, 0) (1, 1, 1) 1]"


text \<open>
  The row of eight voxels as an array of one axis, with the blocks that the executor makes
  of it: the halo of one voxel lies along the only axis.
\<close>

definition line8_1d :: "8 word array" where
  "line8_1d = \<lparr>ndim = 1, roi = Roi (0, 0, 0) (8, 1, 1),
                data = (\<lambda>p. if p = (3, 0, 0) \<or> p = (4, 0, 0) then 1 else 0)\<rparr>"

definition line8_1d_out :: "8 word array" where
  "line8_1d_out = \<lparr>ndim = 1, roi = Roi (0, 0, 0) (8, 1, 1), data = (\<lambda>p. 0)\<rparr>"

definition line8_1d_halo :: "block list" where
  "line8_1d_halo =
     [\<lparr>block_id = 0, read_roi = Roi (- 1, 0, 0) (6, 1, 1), write_roi = Roi (0, 0, 0) (4, 1, 1)\<rparr>,
      \<lparr>block_id = 1, read_roi = Roi (3, 0, 0) (6, 1, 1), write_roi = Roi (4, 0, 0) (4, 1, 1)\<rparr>]"

text \<open>The row of eight voxels as one block.\<close>

definition line8_whole :: "block list" where
  "line8_whole = [mk_block 0 (0, 0, 0) (8, 1, 1) 1]"





section \<open>Regions\<close>

declare contains.simps [simp del] within.simps [simp del] grow.simps [simp del]

lemma set_roi_points: "set (roi_points r) = {p. contains r p}"
proof -
  obtain ox oy oz sx sy sz where r: "roi_offset r = (ox, oy, oz)" "roi_shape r = (sx, sy, sz)"
    by (metis prod_cases3)
  have "p \<in> set (roi_points r) \<longleftrightarrow> contains r p" for p
  proof (cases p)
    case (fields x y z)
    show ?thesis unfolding fields
      by (simp add: roi_points_def r image_iff contains.simps)
  qed
  then show ?thesis by blast
qed

lemma length_concat_const:
  "(\<And>x. x \<in> set xs \<Longrightarrow> length (f x) = n) \<Longrightarrow> length (concat (map f xs)) = length xs * n"
  by (induction xs) auto

lemma length_roi_points: "length (roi_points r) = roi_size r"
  by (cases "roi_offset r"; cases "roi_shape r")
     (simp add: roi_points_def roi_size_def length_concat_const nat_mult_distrib mult.assoc nat_diff_distrib)



section \<open>The labelling primitive labels the components\<close>

lemma blob_steps_iff:
  "(p, q) \<in> set (blob_steps L r) \<longleftrightarrow>
     contains r p \<and> contains r q \<and> L p \<noteq> 0 \<and> L q = L p \<and> q \<in> set (neighbours6 p)"
  by (auto simp: blob_steps_def set_roi_points)



lemma trancl_blob_steps:
  "(p, q) \<in> trancl (set (blob_steps L r)) \<Longrightarrow>
     contains r p \<and> contains r q \<and> L p \<noteq> 0 \<and> L q = L p"
  by (induction rule: trancl.induct) (auto simp: blob_steps_iff)

lemma joined_iff: "joined L r p q \<longleftrightarrow> p = q \<or> (p, q) \<in> trancl (set (blob_steps L r))"
  by (auto simp: joined_def dest: trancl_blob_steps)

lemma joined_refl: "joined L r p p"
  by (simp add: joined_iff)





lemma hd_filter_props:
  "x \<in> set xs \<Longrightarrow> P x \<Longrightarrow> hd (filter P xs) \<in> set xs \<and> P (hd (filter P xs))"
proof -
  assume "x \<in> set xs" "P x"
  then have "filter P xs \<noteq> []" by (auto simp: filter_empty_conv)
  then have "hd (filter P xs) \<in> set (filter P xs)" by (rule hd_in_set)
  then show ?thesis by simp
qed

lemma first_voxel_props:
  assumes "contains r p"
  shows "contains r (first_voxel L r p)" and "joined L r (first_voxel L r p) p"
  using hd_filter_props [of p "roi_points r" "\<lambda>q. joined L r q p"] assms
  by (auto simp: first_voxel_def set_roi_points joined_refl)





lemma count_before_bound:
  "x \<in> set xs \<Longrightarrow> Suc (length (filter R (takeWhile (\<lambda>q. q \<noteq> x) xs))) \<le> length xs"
proof -
  assume "x \<in> set xs"
  then have "length (takeWhile (\<lambda>q. q \<noteq> x) xs) < length xs"
    by (induction xs) auto
  moreover have "length (filter R (takeWhile (\<lambda>q. q \<noteq> x) xs)) \<le> length (takeWhile (\<lambda>q. q \<noteq> x) xs)"
    by (rule length_filter_le)
  ultimately show ?thesis by linarith
qed

lemma skimage_label_zero: "skimage_label L r p = 0 \<longleftrightarrow> L p = 0"
  by (simp add: skimage_label_def)

lemma skimage_label_bound:
  "contains r p \<Longrightarrow> skimage_label L r p \<le> roi_size r"
  using count_before_bound [of "first_voxel L r p" "roi_points r"] first_voxel_props(1) [of r p L]
  by (auto simp: skimage_label_def set_roi_points length_roi_points)



section \<open>The resolver and the substitution\<close>









section \<open>One call of the block function\<close>

lemma set_unique_rows: "set (unique_rows rows) = set rows"
  by (simp add: unique_rows_def)

lemma set_unique_values: "set (unique_values es) = fst ` set es \<union> snd ` set es"
  by (force simp: unique_values_def)

lemma set_boundary_pairs:
  "set (boundary_pairs c n r d) =
     {(c p, n p) | p. contains r p \<and>
        (axis d p = axis d (roi_offset r) \<or> axis d p = axis d (roi_offset r) + axis d (roi_shape r) - 1)}"
  by (auto simp: boundary_pairs_def set_unique_rows slices_neg_def slices_pos_def set_roi_points Let_def)

lemma set_recorded_edges:
  "set (recorded_edges c n r) = {(c p, n p) | p. on_face r p \<and> c p \<noteq> 0 \<and> n p \<noteq> 0}"
proof -
  have "set (recorded_edges c n r) =
          {e \<in> (\<Union>d\<in>{0, 1, 2}. set (boundary_pairs c n r d)). fst e \<noteq> 0 \<and> snd e \<noteq> 0}"
    by (auto simp: recorded_edges_def)
  also have "\<dots> = {(c p, n p) | p. on_face r p \<and> c p \<noteq> 0 \<and> n p \<noteq> 0}"
    unfolding set_boundary_pairs on_face_def by fastforce
  finally show ?thesis .
qed

lemma cropped_halo:
  "read_roi b = grow (write_roi b) (1, 1, 1) (1, 1, 1) \<Longrightarrow> cropped b c = c"
  by (cases "roi_offset (write_roi b)"; cases "roi_shape (write_roi b)")
     (auto simp: cropped_def Roi_def fun_eq_iff grow.simps)

lemma cropped_shape_halo:
  "read_roi b = grow (write_roi b) (1, 1, 1) (1, 1, 1) \<Longrightarrow> cropped_shape b = roi_shape (write_roi b)"
  by (cases "roi_offset (write_roi b)"; cases "roi_shape (write_roi b)")
     (auto simp: cropped_shape_def Roi_def grow.simps)

lemma find_components_in_block_halo:
  assumes "ndim array_in = 3" "halo_block (roi array_out) b"
  shows "find_components_in_block array_in array_out cap b tmpdir =
     (let c = block_components array_in cap b;
          out' = setitem array_out (write_roi b) c;
          es = recorded_edges c (to_ndarray out') (read_roi b)
      in Inr (out', AList.update (block_id b) (unique_values es, es) tmpdir))"
  using assms
  by (simp add: find_components_in_block_def halo_block_def cropped_halo cropped_shape_halo
        recorded_edges_def Let_def)

section \<open>The first pass\<close>

lemma phase1_Nil: "phase1 array_in cap [] st = st"
  by (simp add: phase1_def)

lemma phase1_Cons:
  assumes "ndim array_in = 3" "halo_block (roi a) b"
  shows "phase1 array_in cap (b # bs) (a, t) =
           phase1 array_in cap bs
             (written array_in cap b a, AList.update (block_id b) (entry array_in cap b a) t)"
  using assms
  by (simp add: phase1_def find_components_in_block_halo written_def entry_def Let_def)

lemma roi_written: "roi (written array_in cap b a) = roi a"
  by (simp add: written_def setitem_def)







lemma phase1_distinct_keys:
  assumes "ndim array_in = 3"
  shows "\<forall>b\<in>set bs. halo_block (roi a) b \<Longrightarrow> distinct (map fst t)
           \<Longrightarrow> distinct (map fst (snd (phase1 array_in cap bs (a, t))))"
proof (induction bs arbitrary: a t)
  case Nil
  then show ?case by (simp add: phase1_Nil)
next
  case (Cons b bs)
  then show ?case using assms by (simp add: phase1_Cons roi_written distinct_update)
qed






section \<open>Schedules and the label namespace\<close>





lemma roi_size_grow_le:
  "shape_le (roi_shape w) block_size \<Longrightarrow>
     roi_size (grow w (1, 1, 1) (1, 1, 1)) \<le> num_voxels block_size"
  by (cases "roi_offset w"; cases "roi_shape w"; cases block_size)
     (auto simp: shape_le_def num_voxels_def roi_size_def Roi_def grow.simps intro!: mult_le_mono)

lemma block_components_background:
  "to_ndarray array_in p = 0 \<Longrightarrow> block_components array_in cap b p = 0"
  by (simp add: block_components_def)


lemma block_components_unat:
  assumes "to_ndarray array_in p \<noteq> 0" "contains (read_roi b) p" "roi_size (read_roi b) \<le> cap"
    and "block_id b * cap + cap < 2 ^ LENGTH('a)"
  shows "unat (block_components array_in cap b p :: 'a::len word) =
           block_id b * cap + skimage_label (to_ndarray array_in) (read_roi b) p"
proof -
  let ?l = "skimage_label (to_ndarray array_in) (read_roi b) p"
  have "?l \<le> cap" using skimage_label_bound [OF assms(2)] assms(3) by (rule order_trans)
  then have lt: "?l + block_id b * cap < 2 ^ LENGTH('a)" using assms(4) by simp
  have "block_components array_in cap b p = (of_nat (?l + block_id b * cap) :: 'a word)"
    using assms(1) by (simp add: block_components_def Let_def)
  then have "unat (block_components array_in cap b p :: 'a word) = (?l + block_id b * cap) mod 2 ^ LENGTH('a)"
    by (simp only: unat_of_nat)
  then show ?thesis using lt by simp
qed


lemma block_components_decode:
  assumes p: "to_ndarray array_in p \<noteq> 0" "contains (read_roi b) p" "roi_size (read_roi b) \<le> cap"
    "block_id b * cap + cap < 2 ^ LENGTH('a)"
    and q: "to_ndarray array_in q \<noteq> 0" "contains (read_roi c) q" "roi_size (read_roi c) \<le> cap"
    "block_id c * cap + cap < 2 ^ LENGTH('a)"
    and eq: "(block_components array_in cap b p :: 'a::len word) = block_components array_in cap c q"
  shows "block_id b = block_id c \<and>
         skimage_label (to_ndarray array_in) (read_roi b) p =
           skimage_label (to_ndarray array_in) (read_roi c) q"
proof -
  let ?l = "skimage_label (to_ndarray array_in) (read_roi b) p"
  let ?m = "skimage_label (to_ndarray array_in) (read_roi c) q"
  have l: "0 < ?l" "?l \<le> cap"
    using p(1) skimage_label_bound [OF p(2), of "to_ndarray array_in"] p(3)
      skimage_label_zero [of "to_ndarray array_in" "read_roi b" p] by simp_all
  have m: "0 < ?m" "?m \<le> cap"
    using q(1) skimage_label_bound [OF q(2), of "to_ndarray array_in"] q(3)
      skimage_label_zero [of "to_ndarray array_in" "read_roi c" q] by simp_all
  have e: "block_id b * cap + ?l = block_id c * cap + ?m"
    using block_components_unat [OF p] block_components_unat [OF q] eq by simp
  have "block_id b = block_id c"
  proof (rule ccontr)
    assume ne: "block_id b \<noteq> block_id c"
    show False
    proof (cases "block_id b < block_id c")
      case True
      then have "block_id b * cap + cap \<le> block_id c * cap"
        by (metis Suc_leI mult_Suc mult_le_mono1 add.commute)
      then show False using e l m by linarith
    next
      case False
      then have "block_id c < block_id b" using ne by simp
      then have "block_id c * cap + cap \<le> block_id b * cap"
        by (metis Suc_leI mult_Suc mult_le_mono1 add.commute)
      then show False using e l m by linarith
    qed
  qed
  then show ?thesis using e by simp
qed

section \<open>The second pass and the whole run\<close>








lemma halo_schedule_size:
  "halo_schedule vol block_size bs \<Longrightarrow> b \<in> set bs \<Longrightarrow> roi_size (read_roi b) \<le> num_voxels block_size"
  using roi_size_grow_le [of "write_roi b" block_size] by (simp add: halo_schedule_def)











section \<open>Blobs of the volume and the labels that denote them\<close>














section \<open>Connected voxels are merged\<close>









section \<open>The output of a run\<close>








lemma run_blockwise_all_fail:
  "(\<And>b s. \<exists>e. f b s = Inl e) \<Longrightarrow> run_blockwise f bs s = s"
proof (induction bs arbitrary: s)
  case Nil
  then show ?case by simp
next
  case (Cons b bs)
  from Cons.prems [of b s] obtain e where "f b s = Inl e" by blast
  then show ?case using Cons by simp
qed

lemma same_label_block:
  assumes h: "halo_schedule (roi array_in) block_size s1"
    and f: "labels_fit LENGTH('a) block_size s1"
    and b: "b \<in> set s1" "contains (read_roi b) x" "to_ndarray array_in x \<noteq> 0"
    and c: "c \<in> set s1" "contains (read_roi c) y" "to_ndarray array_in y \<noteq> 0"
    and eq: "(block_components array_in (num_voxels block_size) b x :: 'a::len word) =
               block_components array_in (num_voxels block_size) c y"
  shows "b = c"
proof -
  have fb: "block_id b * num_voxels block_size + num_voxels block_size < 2 ^ LENGTH('a)"
    and fc: "block_id c * num_voxels block_size + num_voxels block_size < 2 ^ LENGTH('a)"
    using f b(1) c(1) by (simp_all add: labels_fit_def)
  from block_components_decode [OF b(3,2) halo_schedule_size [OF h b(1)] fb
      c(3,2) halo_schedule_size [OF h c(1)] fc eq]
  have i: "block_id b = block_id c" by simp
  have "inj_on block_id (set s1)" using h by (simp add: halo_schedule_def distinct_map)
  then show ?thesis using i b(1) c(1) by (auto dest: inj_onD)
qed




lemma unique_values_sorted: "sorted (unique_values es) \<and> distinct (unique_values es)"
  by (simp add: unique_values_def)


section \<open>The properties of the specification\<close>













text \<open>
  Claim C5, as amended. For blocks whose read regions have at most \<open>cap\<close> voxels and
  whose labels fit the type (\<open>block_id * cap + cap < 2 ^ w\<close>): a background voxel of the
  read region gets the global label 0; a foreground voxel with the local label \<open>L\<close> gets
  \<open>block_id * cap + L\<close>, with \<open>L\<close> from 1 to \<open>cap\<close>; and the nonzero global labels of
  two blocks with different identifiers are different.
\<close>

theorem namespace_disjoint:
  assumes "contains (read_roi b) p" "contains (read_roi c) q"
    and "roi_size (read_roi b) \<le> cap" "roi_size (read_roi c) \<le> cap"
    and "block_id b * cap + cap < 2 ^ LENGTH('a)" "block_id c * cap + cap < 2 ^ LENGTH('a)"
  shows "(to_ndarray array_in p = 0 \<longrightarrow> (block_components array_in cap b p :: 'a::len word) = 0) \<and>
         (to_ndarray array_in p \<noteq> 0 \<longrightarrow>
            unat (block_components array_in cap b p :: 'a word) =
              block_id b * cap + skimage_label (to_ndarray array_in) (read_roi b) p \<and>
            1 \<le> skimage_label (to_ndarray array_in) (read_roi b) p \<and>
            skimage_label (to_ndarray array_in) (read_roi b) p \<le> cap) \<and>
         (block_id b \<noteq> block_id c \<longrightarrow> to_ndarray array_in p \<noteq> 0 \<longrightarrow>
            to_ndarray array_in q \<noteq> 0 \<longrightarrow>
            (block_components array_in cap b p :: 'a word) \<noteq> block_components array_in cap c q)"
proof (intro conjI impI)
  assume "to_ndarray array_in p = 0"
  then show "(block_components array_in cap b p :: 'a word) = 0"
    by (rule block_components_background)
next
  assume "to_ndarray array_in p \<noteq> 0"
  then show "unat (block_components array_in cap b p :: 'a word) =
              block_id b * cap + skimage_label (to_ndarray array_in) (read_roi b) p"
    by (rule block_components_unat [OF _ assms(1,3,5)])
next
  assume "to_ndarray array_in p \<noteq> 0"
  then show "1 \<le> skimage_label (to_ndarray array_in) (read_roi b) p"
    using skimage_label_zero [of "to_ndarray array_in" "read_roi b" p] by simp
next
  show "skimage_label (to_ndarray array_in) (read_roi b) p \<le> cap"
    using skimage_label_bound [OF assms(1), of "to_ndarray array_in"] assms(3) by simp
next
  assume "block_id b \<noteq> block_id c" "to_ndarray array_in p \<noteq> 0" "to_ndarray array_in q \<noteq> 0"
  then show "(block_components array_in cap b p :: 'a word) \<noteq> block_components array_in cap c q"
    using block_components_decode [OF _ assms(1,3,5) _ assms(2,4,6), of array_in] by blast
qed

theorem namespace_disjoint_witness:
  "contains (read_roi (mk_block 0 (0, 0, 0) (4, 1, 1) 1)) (3, 0, 0) \<and>
   contains (read_roi (mk_block 1 (4, 0, 0) (4, 1, 1) 1)) (4, 0, 0) \<and>
   roi_size (read_roi (mk_block 0 (0, 0, 0) (4, 1, 1) 1)) \<le> 54 \<and>
   roi_size (read_roi (mk_block 1 (4, 0, 0) (4, 1, 1) 1)) \<le> 54 \<and>
   block_id (mk_block 0 (0, 0, 0) (4, 1, 1) 1) * 54 + 54 < 2 ^ LENGTH(8) \<and>
   block_id (mk_block 1 (4, 0, 0) (4, 1, 1) 1) * 54 + 54 < 2 ^ LENGTH(8) \<and>
   to_ndarray line8 (3, 0, 0) \<noteq> 0 \<and> to_ndarray line8 (4, 0, 0) \<noteq> 0 \<and>
   block_id (mk_block 0 (0, 0, 0) (4, 1, 1) 1) \<noteq> block_id (mk_block 1 (4, 0, 0) (4, 1, 1) 1) \<and>
   unat (block_components line8 54 (mk_block 0 (0, 0, 0) (4, 1, 1) 1) (3, 0, 0)) =
     block_id (mk_block 0 (0, 0, 0) (4, 1, 1) 1) * 54 +
       skimage_label (to_ndarray line8) (read_roi (mk_block 0 (0, 0, 0) (4, 1, 1) 1)) (3, 0, 0) \<and>
   block_components line8 54 (mk_block 0 (0, 0, 0) (4, 1, 1) 1) (3, 0, 0) \<noteq>
     block_components line8 54 (mk_block 1 (4, 0, 0) (4, 1, 1) 1) (4, 0, 0)"
proof -
  let ?b = "mk_block 0 (0, 0, 0) (4, 1, 1) 1" and ?c = "mk_block 1 (4, 0, 0) (4, 1, 1) 1"
  have h1: "contains (read_roi ?b) (3, 0, 0)" by code_simp
  have h2: "contains (read_roi ?c) (4, 0, 0)" by code_simp
  have h3: "roi_size (read_roi ?b) \<le> 54" by code_simp
  have h4: "roi_size (read_roi ?c) \<le> 54" by code_simp
  have h5: "block_id ?b * 54 + 54 < 2 ^ LENGTH(8)" by (simp add: mk_block_def)
  have h6: "block_id ?c * 54 + 54 < 2 ^ LENGTH(8)" by (simp add: mk_block_def)
  have h7: "to_ndarray line8 (3, 0, 0) \<noteq> 0" "to_ndarray line8 (4, 0, 0) \<noteq> 0" by code_simp+
  have h8: "block_id ?b \<noteq> block_id ?c" by (simp add: mk_block_def)
  from namespace_disjoint [OF h1 h2 h3 h4 h5 h6, of line8] h1 h2 h3 h4 h5 h6 h7 h8
  show ?thesis by blast
qed

text \<open>
  Claim C5 as stated fails where the labels do not fit: with the capacity 255 of the read
  region, the local label 2 of block 1 becomes \<open>1 * 255 + 2 = 1\<close> in 8 bits, the global
  label of the local label 1 of block 0.
\<close>

theorem namespace_disjoint_counterexample:
  "num_voxels (1, 3, 15) = 255 \<and>
   block_id (mk_block 0 (0, 0, 0) (1, 3, 15) 1) \<noteq> block_id (mk_block 1 (0, 0, 15) (1, 3, 15) 1) \<and>
   skimage_label (to_ndarray strip30_three) (read_roi (mk_block 1 (0, 0, 15) (1, 3, 15) 1))
     (0, 0, 25) = 2 \<and>
   block_components strip30_three 255 (mk_block 1 (0, 0, 15) (1, 3, 15) 1) (0, 0, 25) = 1 \<and>
   block_components strip30_three 255 (mk_block 0 (0, 0, 0) (1, 3, 15) 1) (0, 0, 0) = 1"
  by code_simp

text \<open>
  Claim C6, as amended. For a block inside the destination, on a volume of three axes, the
  block function first stores its labels on the write region and then records, for every
  axis and both of its faces, the pairs made of the block's own label and the re-read
  destination value at the same voxel of the outermost layer of the read region, that is at
  a halo voxel: the own labels are those of the whole read region, not cropped. The pairs
  with a 0 on either side are dropped. The edges are the remaining pairs, the nodes are the
  distinct values of the edges, sorted.
\<close>

theorem recorded_pairs:
  assumes "ndim array_in = 3" "halo_block (roi array_out) blk"
  shows "\<exists>out nodes edges.
           find_components_in_block array_in array_out cap blk tmpdir =
             Inr (out, AList.update (block_id blk) (nodes, edges) tmpdir) \<and>
           out = setitem array_out (write_roi blk) (block_components array_in cap blk) \<and>
           set edges =
             {(block_components array_in cap blk p, to_ndarray out p) | p.
                on_face (read_roi blk) p \<and> block_components array_in cap blk p \<noteq> 0 \<and>
                to_ndarray out p \<noteq> 0} \<and>
           set nodes = fst ` set edges \<union> snd ` set edges \<and> sorted nodes \<and> distinct nodes"
proof -
  let ?c = "block_components array_in cap blk"
  let ?out = "setitem array_out (write_roi blk) ?c"
  let ?es = "recorded_edges ?c (to_ndarray ?out) (read_roi blk)"
  have "find_components_in_block array_in array_out cap blk tmpdir =
          Inr (?out, AList.update (block_id blk) (unique_values ?es, ?es) tmpdir)"
    using assms by (simp add: find_components_in_block_halo Let_def)
  moreover have "set ?es = {(?c p, to_ndarray ?out p) | p.
      on_face (read_roi blk) p \<and> ?c p \<noteq> 0 \<and> to_ndarray ?out p \<noteq> 0}"
    by (rule set_recorded_edges)
  moreover have "set (unique_values ?es) = fst ` set ?es \<union> snd ` set ?es"
    by (rule set_unique_values)
  ultimately show ?thesis using unique_values_sorted [of ?es] by blast
qed

theorem recorded_pairs_witness:
  "ndim pair2 = 3 \<and>
   halo_block (roi (zeros (roi pair2) :: 8 word array)) (mk_block 0 (0, 0, 0) (1, 1, 1) 1) \<and>
   (\<exists>out nodes edges.
      find_components_in_block pair2 (zeros (roi pair2)) 27 (mk_block 0 (0, 0, 0) (1, 1, 1) 1) [] =
        Inr (out, AList.update (block_id (mk_block 0 (0, 0, 0) (1, 1, 1) 1)) (nodes, edges) []) \<and>
      out = setitem (zeros (roi pair2)) (write_roi (mk_block 0 (0, 0, 0) (1, 1, 1) 1))
              (block_components pair2 27 (mk_block 0 (0, 0, 0) (1, 1, 1) 1)) \<and>
      set edges =
        {(block_components pair2 27 (mk_block 0 (0, 0, 0) (1, 1, 1) 1) p, to_ndarray out p) | p.
           on_face (read_roi (mk_block 0 (0, 0, 0) (1, 1, 1) 1)) p \<and>
           block_components pair2 27 (mk_block 0 (0, 0, 0) (1, 1, 1) 1) p \<noteq> 0 \<and>
           to_ndarray out p \<noteq> 0} \<and>
      set nodes = fst ` set edges \<union> snd ` set edges \<and> sorted nodes \<and> distinct nodes)"
proof -
  have h1: "ndim pair2 = 3" by (simp add: pair2_def)
  have h2: "halo_block (roi (zeros (roi pair2) :: 8 word array)) (mk_block 0 (0, 0, 0) (1, 1, 1) 1)"
    by code_simp
  from recorded_pairs [OF h1 h2, of 27 "[]"] h1 h2 show ?thesis by blast
qed

text \<open>
  Claim C6 as stated fails: the own labels that are paired are not the cropped ones. When
  block 0 of \<open>pair2\<close> runs after block 1 it records the pair of 1 and 28, where 1 is its
  label for the voxel (1, 0, 0) of its halo; its cropped labels are a single 0.
\<close>

theorem recorded_pairs_counterexample:
  "map_of (scratch1 pair2 (1, 1, 1) (rev pair2_halo)) 0 = Some ([1, 28], [(1, 28)]) \<and>
   map (cropped (mk_block 0 (0, 0, 0) (1, 1, 1) 1)
          (block_components pair2 27 (mk_block 0 (0, 0, 0) (1, 1, 1) 1)))
       (roi_points (write_roi (mk_block 0 (0, 0, 0) (1, 1, 1) 1))) = [0] \<and>
   block_components pair2 27 (mk_block 0 (0, 0, 0) (1, 1, 1) 1) (1, 0, 0) = 1 \<and>
   \<not> contains (write_roi (mk_block 0 (0, 0, 0) (1, 1, 1) 1)) (1, 0, 0)"
  by code_simp




text \<open>
  Claim C8, as amended. The pipeline handles volumes of three axes only: on an input of any
  other number of axes every call of the block function raises and the run ends with an
  error. On the volume of 8 x 1 x 1 voxels
  in blocks of 4 x 1 x 1 (the blocks 0 and 1) with the run of 1-valued voxels at the indices
  3 and 4, the output is the label 1 at 3 and 4 and 0 elsewhere.
\<close>

theorem three_axes_only:
  "(ndim array_in \<noteq> 3 \<longrightarrow>
      isl (relabel_connected_components array_in array_out block_size schedule1 schedule3)) \<and>
   map (label_at (relabel_connected_components line8 (zeros (roi line8)) (4, 1, 1)
                    line8_halo line8_flat)) (roi_points (roi line8)) =
     [Some 0, Some 0, Some 0, Some 1, Some 1, Some 0, Some 0, Some 0]"
proof -
  have "isl (relabel_connected_components array_in array_out block_size schedule1 schedule3)"
    if "ndim array_in \<noteq> 3"
  proof -
    have "\<exists>e. (\<lambda>b (a, t). find_components_in_block array_in a c b t) b s = Inl e" for b s c
      using that by (cases s) (auto simp: find_components_in_block_def Let_def)
    from run_blockwise_all_fail [of "\<lambda>b (a, t). find_components_in_block array_in a c b t" for c, OF this]
    show ?thesis
      by (simp add: relabel_connected_components_def merge_and_relabel_def
            read_cross_block_merges_def Let_def)
  qed
  moreover have "map (label_at (relabel_connected_components line8 (zeros (roi line8)) (4, 1, 1)
                    line8_halo line8_flat)) (roi_points (roi line8)) =
     [Some 0, Some 0, Some 0, Some 1, Some 1, Some 0, Some 0, Some 0]"
    by code_simp
  ultimately show ?thesis by blast
qed

theorem three_axes_only_witness:
  "ndim line8_1d \<noteq> 3 \<and>
   isl (relabel_connected_components line8_1d line8_1d_out (4, 1, 1) line8_1d_halo line8_flat)"
proof -
  have h: "ndim line8_1d \<noteq> 3" by (simp add: line8_1d_def)
  from three_axes_only [of line8_1d line8_1d_out "(4, 1, 1)" line8_1d_halo line8_flat] h
  show ?thesis by blast
qed

text \<open>
  Claim C8 as stated fails: on the array of one axis and length 8, in blocks of 4, the run
  returns no labels at the indices 3 and 4; it raises.
\<close>

theorem three_axes_only_counterexample:
  "ndim line8_1d = 1 \<and> roi_points (roi line8_1d) =
     [(0, 0, 0), (1, 0, 0), (2, 0, 0), (3, 0, 0), (4, 0, 0), (5, 0, 0), (6, 0, 0), (7, 0, 0)] \<and>
   map (label_at (relabel_connected_components line8_1d line8_1d_out (4, 1, 1)
                    line8_1d_halo line8_flat)) [(3, 0, 0), (4, 0, 0)] = [None, None]"
  by code_simp

text \<open>
  Claim C9, as amended. When the scratch entry of a block \<open>k\<close> is missing and at least one
  other entry is there, the collection returns the concatenated nodes and edges of exactly
  the entries that are there, and raises nothing; no list of expected blocks takes part.
  The merge then goes on without the missing pairs: on \<open>line8\<close> without the entry of
  block 1 the two connected voxels at the indices 3 and 4 end with the labels 1 and 55.
\<close>

theorem merge_input_collection:
  assumes "AList.delete k tmpdir \<noteq> []"
  shows "read_cross_block_merges (AList.delete k tmpdir) =
           Inr (concat (map (\<lambda>f. fst (snd f)) (filter (\<lambda>f. fst f \<noteq> k) tmpdir)),
                concat (map (\<lambda>f. snd (snd f)) (filter (\<lambda>f. fst f \<noteq> k) tmpdir))) \<and>
         blob_connected line8 (3, 0, 0) (4, 0, 0) \<and>
         map (label_at (merge_and_relabel (AList.delete 1 (scratch1 line8 (4, 1, 1) line8_halo))
                          (provisional line8 (4, 1, 1) line8_halo) line8_flat))
             [(3, 0, 0), (4, 0, 0)] = [Some 1, Some 55]"
proof -
  have d: "AList.delete k tmpdir = filter (\<lambda>f. fst f \<noteq> k) tmpdir"
    by (induction tmpdir) auto
  have "read_cross_block_merges (AList.delete k tmpdir) =
           Inr (concat (map (\<lambda>f. fst (snd f)) (filter (\<lambda>f. fst f \<noteq> k) tmpdir)),
                concat (map (\<lambda>f. snd (snd f)) (filter (\<lambda>f. fst f \<noteq> k) tmpdir)))"
    using assms unfolding d by (simp add: read_cross_block_merges_def Let_def comp_def)
  moreover have "blob_connected line8 (3, 0, 0) (4, 0, 0)" by code_simp
  moreover have "map (label_at (merge_and_relabel (AList.delete 1 (scratch1 line8 (4, 1, 1) line8_halo))
                          (provisional line8 (4, 1, 1) line8_halo) line8_flat))
             [(3, 0, 0), (4, 0, 0)] = [Some 1, Some 55]"
    by code_simp
  ultimately show ?thesis by blast
qed

theorem merge_input_collection_witness:
  "AList.delete 1 (scratch1 line8 (4, 1, 1) line8_halo) \<noteq> [] \<and>
   read_cross_block_merges (AList.delete 1 (scratch1 line8 (4, 1, 1) line8_halo)) =
     Inr (concat (map (\<lambda>f. fst (snd f)) (filter (\<lambda>f. fst f \<noteq> 1) (scratch1 line8 (4, 1, 1) line8_halo))),
          concat (map (\<lambda>f. snd (snd f)) (filter (\<lambda>f. fst f \<noteq> 1) (scratch1 line8 (4, 1, 1) line8_halo))))"
proof -
  have h: "AList.delete 1 (scratch1 line8 (4, 1, 1) line8_halo) \<noteq> []" by code_simp
  from merge_input_collection [OF h] h show ?thesis by blast
qed

text \<open>
  Claim C9 as stated fails when no entry is left: with the row as a single block and the
  entry of that block missing, the collection raises \<open>ValueError\<close> and the run returns
  no labels.
\<close>

theorem merge_input_collection_counterexample:
  "scratch1 line8 (8, 1, 1) line8_whole = [(0, [], [])] \<and>
   read_cross_block_merges (AList.delete 0 (scratch1 line8 (8, 1, 1) line8_whole)) =
     Inl ValueError \<and>
   label_at (merge_and_relabel (AList.delete 0 (scratch1 line8 (8, 1, 1) line8_whole))
               (provisional line8 (8, 1, 1) line8_whole) [mk_block 0 (0, 0, 0) (8, 1, 1) 0])
     (3, 0, 0) = None"
  by code_simp



end
